theory Spec2Isabelle
  imports Complex_Main "HOL-Library.Sublist" "HOL-Library.AList"
begin

section \<open>JavaScript values\<close>

text \<open>
  The form fields of \<^verbatim>\<open>ApiFormField.tsx\<close> and \<^verbatim>\<open>RelatedModelField.tsx\<close> handle
  values typed \<^verbatim>\<open>any\<close>. They are modelled by a datatype of JavaScript values. A number
  is \<^verbatim>\<open>NaN\<close>, an infinity or a finite value (a rational: every finite double is one;
  the sign of zero is not modelled). \<open>JSHandle\<close> stands for a host object that the
  components only pass on (a \<^verbatim>\<open>Date\<close>, a \<^verbatim>\<open>File\<close>); the handle is its reference.
  \<open>JSObject\<close> and \<open>JSArray\<close> are the objects and arrays parsed from a response or
  written as a literal: they carry no reference.
\<close>

datatype jsnum = NaN | PosInfinity | NegInfinity | Num rat

datatype jsval =
    JSUndefined
  | JSNull
  | JSBool bool
  | JSNumber jsnum
  | JSString string
  | JSObject "(string \<times> jsval) list"
  | JSArray "jsval list"
  | JSHandle nat

text \<open>\<^verbatim>\<open>isNaN(val)\<close> and \<^verbatim>\<open>isFinite(val)\<close> on a value that is a number already.\<close>

fun isNaN :: "jsnum \<Rightarrow> bool" where
  "isNaN NaN = True"
| "isNaN _ = False"

fun isFinite :: "jsnum \<Rightarrow> bool" where
  "isFinite (Num _) = True"
| "isFinite _ = False"

text \<open>Truthiness, as \<^verbatim>\<open>a || b\<close>, \<^verbatim>\<open>a && b\<close>, \<^verbatim>\<open>!a\<close> and \<^verbatim>\<open>a ? b : c\<close> read it.\<close>

fun truthy :: "jsval \<Rightarrow> bool" where
  "truthy JSUndefined = False"
| "truthy JSNull = False"
| "truthy (JSBool b) = b"
| "truthy (JSNumber n) = (n \<noteq> NaN \<and> n \<noteq> Num 0)"
| "truthy (JSString s) = (s \<noteq> [])"
| "truthy (JSObject _) = True"
| "truthy (JSArray _) = True"
| "truthy (JSHandle _) = True"

text \<open>\<^verbatim>\<open>a || b\<close>\<close>

definition js_or :: "jsval \<Rightarrow> jsval \<Rightarrow> jsval" where
  "js_or a b = (if truthy a then a else b)"

text \<open>\<^verbatim>\<open>a ?? b\<close>: only \<^verbatim>\<open>undefined\<close> and \<^verbatim>\<open>null\<close> give way to \<open>b\<close>.\<close>

definition nullish :: "jsval \<Rightarrow> bool" where
  "nullish v = (v = JSUndefined \<or> v = JSNull)"

definition nullish_coalesce :: "jsval \<Rightarrow> jsval \<Rightarrow> jsval" where
  "nullish_coalesce a b = (if nullish a then b else a)"

text \<open>
  Property access on a record received from the API, \<^verbatim>\<open>item.pk\<close>: a missing key reads
  as \<^verbatim>\<open>undefined\<close>. Optional access \<^verbatim>\<open>v?.key\<close> on any value: \<^verbatim>\<open>undefined\<close> when \<open>v\<close> is
  \<^verbatim>\<open>null\<close> or \<^verbatim>\<open>undefined\<close>, the property when \<open>v\<close> is an object, and \<^verbatim>\<open>undefined\<close> on
  the other values (none of them has the own properties the components read).
\<close>

type_synonym jsobject = "(string \<times> jsval) list"

definition get_prop :: "jsobject \<Rightarrow> string \<Rightarrow> jsval" where
  "get_prop obj key = (case map_of obj key of None \<Rightarrow> JSUndefined | Some v \<Rightarrow> v)"

fun optional_prop :: "jsval \<Rightarrow> string \<Rightarrow> jsval" where
  "optional_prop (JSObject obj) key = get_prop obj key"
| "optional_prop _ key = JSUndefined"

text \<open>
  Strict equality \<^verbatim>\<open>a === b\<close> on the values the related field compares with it, the
  bound value and the tracked primary key (numbers, strings, \<^verbatim>\<open>null\<close>, \<^verbatim>\<open>undefined\<close>):
  \<^verbatim>\<open>NaN\<close> differs from itself. Two values that differ here differ in the source too.
\<close>

definition strict_equal :: "jsval \<Rightarrow> jsval \<Rightarrow> bool" where
  "strict_equal a b = (a = b \<and> a \<noteq> JSNumber NaN)"

text \<open>
  The comparison of \<^verbatim>\<open>Array.prototype.includes\<close> (SameValueZero) and of the dependency
  lists of hooks (\<^verbatim>\<open>Object.is\<close>), which agree but for the sign of zero: numbers (\<^verbatim>\<open>NaN\<close>
  included), strings, booleans, \<^verbatim>\<open>null\<close> and \<^verbatim>\<open>undefined\<close> are compared by value, host
  objects by their reference. An object or array of a response is compared by
  reference as well, and it is a reference of its own, parsed for that response: it
  is the same as no value met elsewhere.
\<close>

fun fresh_reference :: "jsval \<Rightarrow> bool" where
  "fresh_reference (JSObject _) = True"
| "fresh_reference (JSArray _) = True"
| "fresh_reference _ = False"

definition same_value_zero :: "jsval \<Rightarrow> jsval \<Rightarrow> bool" where
  "same_value_zero a b = (a = b \<and> \<not> fresh_reference a)"

text \<open>\<^verbatim>\<open>xs.includes(p)\<close>\<close>

definition array_includes :: "jsval list \<Rightarrow> jsval \<Rightarrow> bool" where
  "array_includes xs p = list_ex (\<lambda>x. same_value_zero x p) xs"

text \<open>Truthiness of the optional attributes of a definition (\<open>None\<close> is \<^verbatim>\<open>undefined\<close>).\<close>

definition flag :: "bool option \<Rightarrow> bool" where
  "flag b = (b = Some True)"

definition nonempty :: "string option \<Rightarrow> bool" where
  "nonempty s = (case s of None \<Rightarrow> False | Some str \<Rightarrow> str \<noteq> [])"

section \<open>The field definition\<close>

text \<open>
  \<^verbatim>\<open>ApiFormFieldType\<close>: every attribute is optional; \<open>None\<close> (for \<open>value'\<close>, \<open>default'\<close>
  and \<open>filters\<close>, which are typed \<^verbatim>\<open>any\<close>: \<open>JSUndefined\<close>) is the absent attribute. React
  nodes and callbacks are represented by handles, \<open>adjustFilters\<close> by the function it
  computes, and \<open>children\<close> by the nested definitions under their keys (\<open>'c\<close>).
  \<open>field_type\<close> is the string the API sent: TypeScript's union of literals does not
  hold at run time, which is what the default case of \<^verbatim>\<open>buildField\<close> is for.
\<close>

record 'c ApiFormFieldType =
  label :: "string option"
  value' :: jsval
  default' :: jsval
  icon :: "nat option"
  field_type :: "string option"
  api_url :: "string option"
  model :: "string option"
  modelRenderer :: "nat option"
  filters :: jsval
  children :: "(string \<times> 'c) list option"
  required :: "bool option"
  choices :: "jsval list option"
  hidden :: "bool option"
  disabled :: "bool option"
  read_only :: "bool option"
  placeholder :: "string option"
  description :: "string option"
  preFieldContent :: "nat option"
  postFieldContent :: "nat option"
  onValueChange :: "nat option"
  adjustFilters :: "(jsval \<Rightarrow> jsval) option"

section \<open>The form-state container and the change handler\<close>

text \<open>
  The controller of react-hook-form binds the field to the form's value under
  \<^verbatim>\<open>fieldName\<close>: \<^verbatim>\<open>field.value\<close> reads it, \<^verbatim>\<open>field.onChange(v)\<close> writes it. The form is a
  map from field names to values (a name the form has no value for reads as
  \<^verbatim>\<open>undefined\<close>). What the handlers do that is visible outside the component (a write
  to the form, a call of the definition's callback) is appended to \<open>trace\<close> in the
  order in which it happens.
\<close>

datatype effect =
    FormWrite string jsval
  | ValueChangeCallback nat jsval

record form_state =
  form :: "string \<rightharpoonup> jsval"
  trace :: "effect list"

definition field_value :: "string \<Rightarrow> form_state \<Rightarrow> jsval" where
  "field_value fieldName w = (case form w fieldName of None \<Rightarrow> JSUndefined | Some v \<Rightarrow> v)"

definition field_onChange :: "string \<Rightarrow> jsval \<Rightarrow> form_state \<Rightarrow> form_state" where
  "field_onChange fieldName v w =
     w\<lparr>form := (form w)(fieldName \<mapsto> v), trace := trace w @ [FormWrite fieldName v]\<rparr>"

text \<open>\<^verbatim>\<open>definition.onValueChange?.(value)\<close>\<close>

definition call_onValueChange :: "('c, 'm) ApiFormFieldType_scheme \<Rightarrow> jsval \<Rightarrow> form_state \<Rightarrow> form_state" where
  "call_onValueChange d v w =
     (case onValueChange d of
        None \<Rightarrow> w
      | Some cb \<Rightarrow> w\<lparr>trace := trace w @ [ValueChangeCallback cb v]\<rparr>)"

text \<open>\<^verbatim>\<open>onChange\<close> of \<^verbatim>\<open>ApiFormField\<close> (lines 131-139).\<close>

definition onChange :: "string \<Rightarrow> ('c, 'm) ApiFormFieldType_scheme \<Rightarrow> jsval \<Rightarrow> form_state \<Rightarrow> form_state" where
  "onChange fieldName d v w = call_onValueChange d v (field_onChange fieldName v w)"

text \<open>
  The effect of \<^verbatim>\<open>ApiFormField\<close> that runs on mount and whenever \<^verbatim>\<open>definition.value\<close>
  changes (lines 109-116).
\<close>

definition useEffect_value :: "string \<Rightarrow> ('c, 'm) ApiFormFieldType_scheme \<Rightarrow> form_state \<Rightarrow> form_state" where
  "useEffect_value fieldName d w =
     (if field_type d = Some ''nested object'' then w
      else if value' d \<noteq> JSUndefined then field_onChange fieldName (value' d) w
      else w)"

section \<open>The generic field renderer\<close>

text \<open>
  \<^verbatim>\<open>reducedDefinition\<close> (lines 120-128): the definition with four attributes set to
  \<^verbatim>\<open>undefined\<close>; it is what the widgets receive by spread syntax. (It is memoized on
  the definition it is computed from, and so are the handlers; recomputing them
  gives the same.)
\<close>

definition reducedDefinition :: "'c ApiFormFieldType \<Rightarrow> 'c ApiFormFieldType" where
  "reducedDefinition d =
     d\<lparr>onValueChange := None, adjustFilters := None, read_only := None, children := None\<rparr>"

text \<open>
  \<^verbatim>\<open>numericalValue\<close> (lines 142-163). \<^verbatim>\<open>parseInt\<close> and \<^verbatim>\<open>parseFloat\<close> are builtins of
  the language, not code of the repository: the model takes them as parameters, so
  what is proved holds whatever they compute. Both return a number, never
  \<^verbatim>\<open>undefined\<close> or \<^verbatim>\<open>null\<close>, so \<^verbatim>\<open>?? 0\<close> after them changes nothing; a failed parse is
  \<^verbatim>\<open>NaN\<close>, which the test after the switch replaces by 0.
\<close>

definition numericalValue ::
  "(jsval \<Rightarrow> jsnum) \<Rightarrow> (jsval \<Rightarrow> jsnum) \<Rightarrow> string option \<Rightarrow> jsval \<Rightarrow> jsnum" where
  "numericalValue parseInt parseFloat ft v =
     (let val =
        (if ft = Some ''integer'' then parseInt v
         else if ft = Some ''decimal'' \<or> ft = Some ''float'' \<or> ft = Some ''number''
         then parseFloat v
         else Num 0)
      in if isNaN val \<or> \<not> isFinite val then Num 0 else val)"

text \<open>
  \<^verbatim>\<open>useMemo(..., [value])\<close> around it (lines 142 and 163): the hook keeps the bound value
  it last computed for and the number it computed. On mount (\<open>None\<close>) and when the
  bound value is not the one kept, the number is computed anew, from the type tag
  of that render; otherwise the kept number is returned, whatever the type tag is
  now.
\<close>

record memo_cell =
  memo_deps :: jsval
  memo_value :: jsnum

definition useMemo_numericalValue ::
  "(jsval \<Rightarrow> jsnum) \<Rightarrow> (jsval \<Rightarrow> jsnum) \<Rightarrow> string option \<Rightarrow> jsval \<Rightarrow> memo_cell option
     \<Rightarrow> memo_cell" where
  "useMemo_numericalValue parseInt parseFloat ft v memo =
     (case memo of
        None \<Rightarrow> \<lparr>memo_deps = v, memo_value = numericalValue parseInt parseFloat ft v\<rparr>
      | Some c \<Rightarrow>
          if same_value_zero (memo_deps c) v then c
          else \<lparr>memo_deps = v, memo_value = numericalValue parseInt parseFloat ft v\<rparr>)"

text \<open>
  What \<^verbatim>\<open>buildField\<close> returns: one constructor per widget, with the properties that
  depend on the definition or on the bound value. The spread definition comes first.
  Constant styling (\<^verbatim>\<open>radius\<close>, \<^verbatim>\<open>size\<close>, \<^verbatim>\<open>valueFormat\<close>), the properties taken from the
  controller (\<^verbatim>\<open>ref\<close>, \<^verbatim>\<open>id\<close>, \<^verbatim>\<open>error\<close>) and the display formatter of the number
  input are left out; the change handlers are the functions further down.
\<close>

datatype icon_element = IconX string string

datatype 'c element =
    RelatedModelField_element string "'c ApiFormFieldType"
  | TextInput "'c ApiFormFieldType" "string option" jsval "icon_element option"
  | Switch "'c ApiFormFieldType" jsval
  | DateInput "'c ApiFormFieldType" jsval bool
  | NumberInput "'c ApiFormFieldType" jsnum nat
  | ChoiceField string "'c ApiFormFieldType"
  | FileInput "'c ApiFormFieldType" jsval
  | NestedObjectField "'c ApiFormFieldType" string
  | Alert string string string

datatype 'c stack = Stack "nat option" "'c element" "nat option"

text \<open>The type tags that \<^verbatim>\<open>buildField\<close> has a case for.\<close>

definition recognized_types :: "string list" where
  "recognized_types =
     [''related field'', ''email'', ''url'', ''string'', ''boolean'', ''date'', ''integer'',
      ''decimal'', ''float'', ''number'', ''choice'', ''file upload'', ''nested object'']"

text \<open>React renders \<^verbatim>\<open>{definition.field_type}\<close> as the string, and as nothing when undefined.\<close>

definition render_text :: "string option \<Rightarrow> string" where
  "render_text s = (case s of None \<Rightarrow> [] | Some str \<Rightarrow> str)"

definition invalid_type_message :: "string \<Rightarrow> string option \<Rightarrow> string" where
  "invalid_type_message fieldName ft =
     ''Invalid field type for field '' @ [CHR 0x27] @ fieldName @ [CHR 0x27] @ '': ''
       @ [CHR 0x27] @ render_text ft @ [CHR 0x27]"

text \<open>
  \<^verbatim>\<open>buildField\<close> (lines 166-285), with the switch written as a chain of tests in the
  order of its cases; \<open>v\<close> is \<^verbatim>\<open>field.value\<close>, the value bound to the field, and \<open>num\<close>
  the constant \<^verbatim>\<open>numericalValue\<close> of the component, as the hook returned it.
\<close>

definition buildField :: "jsnum \<Rightarrow> string \<Rightarrow> 'c ApiFormFieldType \<Rightarrow> jsval \<Rightarrow> 'c element" where
  "buildField num fieldName d v =
     (let ft = field_type d in
      if ft = Some ''related field'' then RelatedModelField_element fieldName d
      else if ft = Some ''email'' \<or> ft = Some ''url'' \<or> ft = Some ''string'' then
        TextInput (reducedDefinition d) ft (js_or v (JSString []))
          (if truthy (value' d) \<and> \<not> flag (required d) then Some (IconX ''1rem'' ''red'')
           else None)
      else if ft = Some ''boolean'' then
        Switch (reducedDefinition d) (nullish_coalesce v (JSBool False))
      else if ft = Some ''date'' then
        DateInput (reducedDefinition d) v (\<not> flag (required d))
      else if ft = Some ''integer'' \<or> ft = Some ''decimal'' \<or> ft = Some ''float''
              \<or> ft = Some ''number'' then
        NumberInput (reducedDefinition d) num (if ft = Some ''integer'' then 0 else 10)
      else if ft = Some ''choice'' then ChoiceField fieldName d
      else if ft = Some ''file upload'' then FileInput (reducedDefinition d) v
      else if ft = Some ''nested object'' then NestedObjectField d fieldName
      else Alert ''red'' ''Error'' (invalid_type_message fieldName ft))"

text \<open>
  One render of \<^verbatim>\<open>ApiFormField\<close> (lines 98-107, 142-163 and 287-297): the hook runs
  first, on every render; a hidden field then renders \<^verbatim>\<open>null\<close> (\<open>None\<close>), any other the
  built field between the definition's pre- and post-content. The result is what
  the hook keeps for the next render, and what is rendered.
\<close>

definition ApiFormField ::
  "(jsval \<Rightarrow> jsnum) \<Rightarrow> (jsval \<Rightarrow> jsnum) \<Rightarrow> string \<Rightarrow> 'c ApiFormFieldType \<Rightarrow> form_state
     \<Rightarrow> memo_cell option \<Rightarrow> memo_cell \<times> 'c stack option" where
  "ApiFormField parseInt parseFloat fieldName d w memo =
     (let v = field_value fieldName w;
          c = useMemo_numericalValue parseInt parseFloat (field_type d) v memo
      in (c, if flag (hidden d) then None
             else Some (Stack (preFieldContent d) (buildField (memo_value c) fieldName d v)
                          (postFieldContent d))))"

text \<open>
  The widgets' native change events, each normalised into one call of \<^verbatim>\<open>onChange\<close>
  (lines 188, 191, 206, 220, 246, 266): the text of the input, the cross of the text
  input (\<^verbatim>\<open>onChange('')\<close>), the state of the switch, the picked date, the number, the
  chosen file or \<^verbatim>\<open>null\<close>.
\<close>

definition TextInput_onChange :: "string \<Rightarrow> 'c ApiFormFieldType \<Rightarrow> string \<Rightarrow> form_state \<Rightarrow> form_state" where
  "TextInput_onChange fieldName d currentValue w = onChange fieldName d (JSString currentValue) w"

definition IconX_onClick :: "string \<Rightarrow> 'c ApiFormFieldType \<Rightarrow> form_state \<Rightarrow> form_state" where
  "IconX_onClick fieldName d w = onChange fieldName d (JSString []) w"

definition Switch_onChange :: "string \<Rightarrow> 'c ApiFormFieldType \<Rightarrow> bool \<Rightarrow> form_state \<Rightarrow> form_state" where
  "Switch_onChange fieldName d checked w = onChange fieldName d (JSBool checked) w"

definition DateInput_onChange :: "string \<Rightarrow> 'c ApiFormFieldType \<Rightarrow> jsval \<Rightarrow> form_state \<Rightarrow> form_state" where
  "DateInput_onChange fieldName d v w = onChange fieldName d v w"

definition NumberInput_onChange :: "string \<Rightarrow> 'c ApiFormFieldType \<Rightarrow> jsnum \<Rightarrow> form_state \<Rightarrow> form_state" where
  "NumberInput_onChange fieldName d n w = onChange fieldName d (JSNumber n) w"

definition FileInput_onChange :: "string \<Rightarrow> 'c ApiFormFieldType \<Rightarrow> jsval \<Rightarrow> form_state \<Rightarrow> form_state" where
  "FileInput_onChange fieldName d payload w = onChange fieldName d payload w"

section \<open>The related-entity field\<close>

text \<open>
  The state of one \<^verbatim>\<open>RelatedModelField\<close> (its \<^verbatim>\<open>useState\<close> hooks and the debounced
  value): the locally tracked primary key \<open>pk\<close> (a number or \<^verbatim>\<open>null\<close>), the pagination
  \<open>offset\<close>, the option list \<open>data\<close>, the search input (\<^verbatim>\<open>value\<close> in the source, here
  \<open>query_value\<close>) and its debounced copy \<open>searchText\<close>. An option is
  \<^verbatim>\<open>{value: ..., data: ...}\<close>.
\<close>

record select_option =
  option_value :: jsval
  option_data :: jsval

record RelatedModelField_state =
  pk :: jsval
  offset :: int
  data :: "select_option list"
  query_value :: string
  searchText :: string

definition initial_state :: RelatedModelField_state where
  "initial_state = \<lparr>pk = JSNull, offset = 0, data = [], query_value = [], searchText = []\<rparr>"

text \<open>
  Requests to the API client: \<open>GetDetail base ident\<close> is \<^verbatim>\<open>api.get\<close> of the URL
  \<^verbatim>\<open>`${definition.api_url}${field.value}/`\<close>, \<open>GetList url params\<close> is \<^verbatim>\<open>api.get\<close> of the
  list URL with query parameters. A request ends with the response's \<^verbatim>\<open>data\<close> or with
  an error.
\<close>

datatype request =
    GetDetail "string option" jsval
  | GetList string jsobject

datatype jserror = TypeError | RequestError string

datatype api_result = Response jsval | Failure jserror

subsection \<open>Resolving the initial value\<close>

text \<open>
  The effect of lines 39-62, run on mount and whenever \<^verbatim>\<open>field.value\<close> (here \<open>fv\<close>) or
  the URL changes: the new state and the request it sends, if any.
\<close>

definition useEffect_initial ::
  "'c ApiFormFieldType \<Rightarrow> jsval \<Rightarrow> RelatedModelField_state \<Rightarrow> RelatedModelField_state \<times> request option" where
  "useEffect_initial d fv st =
     (if strict_equal fv (pk st) then (st, None)
      else if fv \<noteq> JSNull then (st, Some (GetDetail (api_url d) fv))
      else (st\<lparr>pk := JSNull\<rparr>, None))"

text \<open>
  The continuation of that request (lines 46-58); there is no \<^verbatim>\<open>catch\<close>, so a failed
  request changes nothing. \<^verbatim>\<open>data && data.pk\<close> holds for an object with a truthy \<^verbatim>\<open>pk\<close>.
\<close>

definition initial_then :: "api_result \<Rightarrow> RelatedModelField_state \<Rightarrow> RelatedModelField_state" where
  "initial_then r st =
     (case r of
        Response (JSObject obj) \<Rightarrow>
          if truthy (get_prop obj ''pk'')
          then st\<lparr>data := [\<lparr>option_value = get_prop obj ''pk'', option_data = JSObject obj\<rparr>],
                  pk := get_prop obj ''pk''\<rparr>
          else st
      | _ \<Rightarrow> st)"

subsection \<open>The list query\<close>

text \<open>
  \<^verbatim>\<open>{...filters}\<close>: the properties of an object; \<^verbatim>\<open>filters\<close> is an object here, since
  \<^verbatim>\<open>definition.filters ?? {}\<close> replaces an absent one (the spread of any other kind of value
  is not modelled and yields no property).
\<close>

fun spread :: "jsval \<Rightarrow> jsobject" where
  "spread (JSObject obj) = obj"
| "spread _ = []"

definition query_params :: "'c ApiFormFieldType \<Rightarrow> int \<Rightarrow> RelatedModelField_state \<Rightarrow> jsobject" where
  "query_params d limit st =
     (let filters0 = nullish_coalesce (filters d) (JSObject []);
          filters1 = (case adjustFilters d of None \<Rightarrow> filters0 | Some f \<Rightarrow> f filters0)
      in AList.update ''limit'' (JSNumber (Num (of_int limit)))
           (AList.update ''offset'' (JSNumber (Num (of_int (offset st))))
             (AList.update ''search'' (JSString (searchText st)) (spread filters1))))"

text \<open>
  \<^verbatim>\<open>queryFn\<close> up to the request (lines 75-96): \<open>None\<close> is the early \<^verbatim>\<open>return null\<close>. The
  continuation closes over the \<^verbatim>\<open>data\<close> of the render that started the query, so the
  pending query carries that list.
\<close>

record pending_query =
  sent :: request
  captured :: "select_option list"

definition queryFn :: "'c ApiFormFieldType \<Rightarrow> int \<Rightarrow> RelatedModelField_state \<Rightarrow> pending_query option" where
  "queryFn d limit st =
     (case api_url d of
        None \<Rightarrow> None
      | Some url \<Rightarrow>
          if url = [] then None
          else Some \<lparr>sent = GetList url (query_params d limit st), captured = data st\<rparr>)"

text \<open>
  \<^verbatim>\<open>item.pk\<close> on an element of the results: a \<^verbatim>\<open>TypeError\<close> on \<^verbatim>\<open>null\<close> and \<^verbatim>\<open>undefined\<close>.
\<close>

fun item_pk :: "jsval \<Rightarrow> jserror + jsval" where
  "item_pk JSUndefined = Inl TypeError"
| "item_pk JSNull = Inl TypeError"
| "item_pk item = Inr (optional_prop item ''pk'')"

text \<open>
  \<^verbatim>\<open>results.forEach(...)\<close> (lines 103-111): \<open>alreadyPresentPks\<close> is computed once, before
  the loop, from the captured list. An exception leaves the loop. \<open>new_option p item\<close> is the pushed \<^verbatim>\<open>{value: item.pk ?? -1, data: item}\<close>.
\<close>

definition new_option :: "jsval \<Rightarrow> jsval \<Rightarrow> select_option" where
  "new_option p item =
     \<lparr>option_value = nullish_coalesce p (JSNumber (Num (- 1))), option_data = item\<rparr>"

fun forEach_push :: "jsval list \<Rightarrow> jsval list \<Rightarrow> select_option list \<Rightarrow> jserror + select_option list" where
  "forEach_push alreadyPresentPks [] values = Inr values"
| "forEach_push alreadyPresentPks (item # rest) values =
     (case item_pk item of
        Inl e \<Rightarrow> Inl e
      | Inr p \<Rightarrow>
          if array_includes alreadyPresentPks p then forEach_push alreadyPresentPks rest values
          else forEach_push alreadyPresentPks rest (values @ [new_option p item]))"

text \<open>\<^verbatim>\<open>response.data?.results ?? response.data ?? []\<close>\<close>

definition response_results :: "jsval \<Rightarrow> jsval" where
  "response_results rdata =
     nullish_coalesce (nullish_coalesce (optional_prop rdata ''results'') rdata) (JSArray [])"

text \<open>
  The \<^verbatim>\<open>then\<close> handler (lines 97-115) up to \<^verbatim>\<open>setData(values)\<close>: the new option list, or
  the exception (\<^verbatim>\<open>forEach\<close> is a method of arrays only).
\<close>

definition queryFn_then :: "select_option list \<Rightarrow> jsval \<Rightarrow> jserror + select_option list" where
  "queryFn_then captured_data rdata =
     (case response_results rdata of
        JSArray results \<Rightarrow> forEach_push (map option_value captured_data) results captured_data
      | _ \<Rightarrow> Inl TypeError)"

text \<open>
  How the promise of \<^verbatim>\<open>queryFn\<close> settles (lines 93-119): the \<^verbatim>\<open>catch\<close> handler takes a
  failed request and an exception of the \<^verbatim>\<open>then\<close> handler alike, empties the option
  list and returns the error as the promise's value.
\<close>

datatype settled_value = ResponseValue jsval | ErrorValue jserror

datatype promise = Fulfilled settled_value | Rejected jserror

definition queryFn_settle ::
  "pending_query \<Rightarrow> api_result \<Rightarrow> RelatedModelField_state \<Rightarrow> RelatedModelField_state \<times> promise" where
  "queryFn_settle p r st =
     (case r of
        Response rdata \<Rightarrow>
          (case queryFn_then (captured p) rdata of
             Inr values \<Rightarrow> (st\<lparr>data := values\<rparr>, Fulfilled (ResponseValue rdata))
           | Inl e \<Rightarrow> (st\<lparr>data := []\<rparr>, Fulfilled (ErrorValue e)))
      | Failure e \<Rightarrow> (st\<lparr>data := []\<rparr>, Fulfilled (ErrorValue e)))"

text \<open>
  The query runs when it is enabled and its key changes (line 73-74); the key holds
  the offset and the debounced search text.
\<close>

definition enabled :: "'c ApiFormFieldType \<Rightarrow> bool" where
  "enabled d = (\<not> flag (disabled d) \<and> nonempty (api_url d) \<and> \<not> flag (hidden d))"

definition queryKey ::
  "string \<Rightarrow> string \<Rightarrow> RelatedModelField_state \<Rightarrow> string \<times> string \<times> int \<times> string" where
  "queryKey fieldName fieldId st = (''related-field-'' @ fieldName, fieldId, offset st, searchText st)"

subsection \<open>The handlers of the select\<close>

text \<open>
  \<^verbatim>\<open>useDebouncedValue(value, 250)\<close>: once the input has been quiet for 250 ms the
  debounced text takes its value; the passing of that time is an event of the model.
\<close>

definition debounce_elapsed :: "RelatedModelField_state \<Rightarrow> RelatedModelField_state" where
  "debounce_elapsed st = st\<lparr>searchText := query_value st\<rparr>"

text \<open>\<^verbatim>\<open>onInputChange\<close> (lines 179-183)\<close>

definition onInputChange :: "string \<Rightarrow> RelatedModelField_state \<Rightarrow> RelatedModelField_state" where
  "onInputChange v st = st\<lparr>query_value := v, offset := 0, data := []\<rparr>"

text \<open>\<^verbatim>\<open>onMenuScrollToBottom\<close> (line 185)\<close>

definition onMenuScrollToBottom :: "int \<Rightarrow> RelatedModelField_state \<Rightarrow> RelatedModelField_state" where
  "onMenuScrollToBottom limit st = st\<lparr>offset := offset st + limit\<rparr>"

text \<open>
  \<^verbatim>\<open>onMenuOpen\<close> (lines 186-190): two state updates, and \<^verbatim>\<open>selectQuery.refetch()\<close>, which
  runs \<^verbatim>\<open>queryFn\<close> of the current render, that is on the state before the updates.
\<close>

definition onMenuOpen ::
  "'c ApiFormFieldType \<Rightarrow> int \<Rightarrow> RelatedModelField_state \<Rightarrow> RelatedModelField_state \<times> pending_query option" where
  "onMenuOpen d limit st = (st\<lparr>query_value := [], offset := 0\<rparr>, queryFn d limit st)"

text \<open>
  \<^verbatim>\<open>onChange\<close> of the related field (lines 142-153); \<open>v\<close> is what the select hands over,
  the chosen option or \<^verbatim>\<open>null\<close>.
\<close>

definition RelatedModelField_onChange ::
  "string \<Rightarrow> 'c ApiFormFieldType \<Rightarrow> jsval \<Rightarrow> RelatedModelField_state \<times> form_state
     \<Rightarrow> RelatedModelField_state \<times> form_state" where
  "RelatedModelField_onChange fieldName d v sw =
     (let pk' = nullish_coalesce (optional_prop v ''value'') JSNull
      in ((fst sw)\<lparr>pk := pk'\<rparr>, call_onValueChange d pk' (field_onChange fieldName pk' (snd sw))))"

text \<open>An option of the list as the value the select passes to \<^verbatim>\<open>onChange\<close>.\<close>

definition option_object :: "select_option \<Rightarrow> jsval" where
  "option_object opt = JSObject [(''value'', option_value opt), (''data'', option_data opt)]"

text \<open>\<^verbatim>\<open>fieldDefinition\<close> (lines 158-165), spread into \<^verbatim>\<open>Input.Wrapper\<close>.\<close>

definition fieldDefinition :: "'c ApiFormFieldType \<Rightarrow> 'c ApiFormFieldType" where
  "fieldDefinition d = d\<lparr>onValueChange := None, adjustFilters := None, read_only := None\<rparr>"

text \<open>\<^verbatim>\<open>currentValue\<close> (lines 167-170): the option shown as selected, if any.\<close>

definition currentValue :: "RelatedModelField_state \<Rightarrow> select_option option" where
  "currentValue st =
     (if pk st \<noteq> JSNull then find (\<lambda>item. strict_equal (option_value item) (pk st)) (data st)
      else None)"

text \<open>
  What \<^verbatim>\<open>RelatedModelField\<close> renders (lines 172-208): the wrapper with the spread
  \<open>fieldDefinition\<close>, around the select with its selected value, its options, and the
  properties computed from the definition (clearable, disabled, placeholder). The
  select is written as the wrapper's child: in the properties the wrapper receives,
  \<^verbatim>\<open>children\<close> is that select and no longer what the spread object held under this
  key. So the attributes of the definition that the wrapper receives are those of
  \<open>fieldDefinition\<close> without its \<open>children\<close>, and the select comes beside them.
\<close>

datatype select_element = Select "select_option option" "select_option list" bool bool string

datatype 'c wrapper_element = InputWrapper "'c ApiFormFieldType" select_element

definition RelatedModelField ::
  "'c ApiFormFieldType \<Rightarrow> RelatedModelField_state \<Rightarrow> 'c wrapper_element" where
  "RelatedModelField d st =
     InputWrapper ((fieldDefinition d)\<lparr>children := None\<rparr>)
       (Select (currentValue st) (data st) (\<not> flag (required d)) (flag (disabled d))
          (if nonempty (placeholder d) then render_text (placeholder d) else ''Search...''))"

subsection \<open>Attribute objects\<close>

text \<open>
  The attributes of the definition that a rendered widget received, if it received
  them by spread syntax (the repository's own components are handed the whole
  definition as one property instead), and those the wrapper of the related field
  received.
\<close>

fun spread_attributes :: "'c element \<Rightarrow> 'c ApiFormFieldType option" where
  "spread_attributes (TextInput a _ _ _) = Some a"
| "spread_attributes (Switch a _) = Some a"
| "spread_attributes (DateInput a _ _) = Some a"
| "spread_attributes (NumberInput a _ _) = Some a"
| "spread_attributes (FileInput a _) = Some a"
| "spread_attributes _ = None"

fun wrapper_attributes :: "'c wrapper_element \<Rightarrow> 'c ApiFormFieldType" where
  "wrapper_attributes (InputWrapper a _) = a"

section \<open>Concrete inputs\<close>

text \<open>
  The definition \<^verbatim>\<open>{}\<close>, with no attribute set; the concrete definitions below are
  updates of it.
\<close>

definition blank_definition :: "unit ApiFormFieldType" where
  "blank_definition =
     \<lparr>label = None, value' = JSUndefined, default' = JSUndefined, icon = None,
      field_type = None, api_url = None, model = None, modelRenderer = None,
      filters = JSUndefined, children = None, required = None, choices = None,
      hidden = None, disabled = None, read_only = None, placeholder = None,
      description = None, preFieldContent = None, postFieldContent = None,
      onValueChange = None, adjustFilters = None\<rparr>"

text \<open>
  An instance of the parsers for evaluating \<open>numericalValue\<close> at concrete inputs: the
  decimal digits at the start of a string, \<^verbatim>\<open>NaN\<close> when there is none. On a string of
  digits only and on \<^verbatim>\<open>'abc'\<close> this is what \<^verbatim>\<open>parseInt\<close> and \<^verbatim>\<open>parseFloat\<close> return.
\<close>

definition is_digit :: "char \<Rightarrow> bool" where
  "is_digit c = (48 \<le> (of_char c :: nat) \<and> (of_char c :: nat) \<le> 57)"

definition parse_digits :: "jsval \<Rightarrow> jsnum" where
  "parse_digits v =
     (case v of
        JSString s \<Rightarrow>
          (let ds = takeWhile is_digit s
           in if ds = [] then NaN
              else Num (of_nat (foldl (\<lambda>a c. 10 * a + (of_char c - 48)) 0 ds)))
      | _ \<Rightarrow> NaN)"

section \<open>Auxiliary facts\<close>








lemma buildField_text:
  "field_type d = Some ''email'' \<or> field_type d = Some ''url'' \<or> field_type d = Some ''string'' \<Longrightarrow>
     buildField num fieldName d v
       = TextInput (reducedDefinition d) (field_type d) (js_or v (JSString []))
           (if truthy (value' d) \<and> \<not> flag (required d) then Some (IconX ''1rem'' ''red'')
            else None)"
  by (elim disjE) (simp_all add: buildField_def Let_def)





lemma buildField_invalid:
  "field_type d \<notin> Some ` set recognized_types \<Longrightarrow>
     buildField num fieldName d v
       = Alert ''red'' ''Error'' (invalid_type_message fieldName (field_type d))"
  by (simp add: buildField_def Let_def recognized_types_def image_iff)

text \<open>
  The cross of a text input: never shown for a required field; a click on it writes
  the empty string and calls the callback with it.
\<close>

lemma required_text_input_has_no_cross:
  assumes "field_type d = Some ''email'' \<or> field_type d = Some ''url'' \<or> field_type d = Some ''string''"
    and "flag (required d)"
  shows "buildField num fieldName d v
       = TextInput (reducedDefinition d) (field_type d) (js_or v (JSString [])) None"
  using buildField_text [OF assms(1)] assms(2) by simp

lemma IconX_onClick_clears:
  "field_value fieldName (IconX_onClick fieldName d w) = JSString []"
  by (simp add: IconX_onClick_def onChange_def call_onValueChange_def field_onChange_def
        field_value_def split: option.splits)



text \<open>
  \<^verbatim>\<open>includes\<close> finds a number, a string or another value compared by value exactly when
  it is an element.
\<close>

lemma array_includes_by_value:
  "\<not> fresh_reference p \<Longrightarrow> array_includes xs p = (p \<in> set xs)"
  by (auto simp: array_includes_def same_value_zero_def list_ex_iff)

text \<open>The loop on a page of objects: the records whose \<^verbatim>\<open>pk\<close> was not found are appended.\<close>

lemma forEach_push_objects:
  "forEach_push already (map JSObject page) vals =
     Inr (vals @ map (\<lambda>obj. new_option (get_prop obj ''pk'') (JSObject obj))
                   (filter (\<lambda>obj. \<not> array_includes already (get_prop obj ''pk'')) page))"
  by (induction page arbitrary: vals) simp_all

lemma response_results_array: "response_results (JSArray items) = JSArray items"
  by (simp add: response_results_def nullish_coalesce_def nullish_def)

lemma queryFn_then_objects:
  assumes "response_results rdata = JSArray (map JSObject page)"
  shows "queryFn_then cache rdata =
     Inr (cache @ map (\<lambda>obj. new_option (get_prop obj ''pk'') (JSObject obj))
                    (filter (\<lambda>obj. \<not> array_includes (map option_value cache) (get_prop obj ''pk''))
                       page))"
  using assms by (simp add: queryFn_then_def forEach_push_objects)

lemma queryFn_settle_objects:
  assumes "response_results rdata = JSArray (map JSObject page)"
  shows "queryFn_settle p (Response rdata) st =
     (st\<lparr>data := captured p @ map (\<lambda>obj. new_option (get_prop obj ''pk'') (JSObject obj))
                    (filter (\<lambda>obj. \<not> array_includes (map option_value (captured p))
                                       (get_prop obj ''pk''))
                       page)\<rparr>,
      Fulfilled (ResponseValue rdata))"
  by (simp add: queryFn_settle_def queryFn_then_objects [OF assms])

lemma new_option_identified:
  "\<not> nullish p \<Longrightarrow> new_option p item = \<lparr>option_value = p, option_data = item\<rparr>"
  by (simp add: new_option_def nullish_coalesce_def)

lemma one_entry:
  "distinct (map f xs) \<Longrightarrow> k \<in> f ` set xs \<Longrightarrow> length (filter (\<lambda>e. f e = k) xs) = 1"
proof (induction xs)
  case Nil
  then show ?case by simp
next
  case (Cons x xs)
  show ?case
  proof (cases "f x = k")
    case True
    from Cons.prems(1) have "f x \<notin> f ` set xs" by simp
    with True have "\<forall>e \<in> set xs. f e \<noteq> k" by blast
    then have "filter (\<lambda>e. f e = k) xs = []"
      by (simp add: filter_empty_conv)
    with True show ?thesis by simp
  next
    case False
    with Cons show ?thesis by auto
  qed
qed

lemma queryFn_request:
  "queryFn d limit st =
     (if nonempty (api_url d)
      then Some \<lparr>sent = GetList (render_text (api_url d)) (query_params d limit st),
                 captured = data st\<rparr>
      else None)"
  by (simp add: queryFn_def nonempty_def render_text_def split: option.splits)

text \<open>
  The object that the related field spreads into its wrapper: three attributes are
  set to \<^verbatim>\<open>undefined\<close> in it, the nested child definitions are not.
\<close>

lemma fieldDefinition_attributes:
  "onValueChange (fieldDefinition d) = None \<and> adjustFilters (fieldDefinition d) = None
   \<and> read_only (fieldDefinition d) = None \<and> children (fieldDefinition d) = children d"
  by (simp add: fieldDefinition_def)

section \<open>The claims\<close>

subsection \<open>C1: the option cache\<close>

text \<open>
  C1, as amended. Let the option list of the field have pairwise distinct
  identifiers, let a list query have been started from it, and let the response hold
  a page of records that all carry an identifier (a number, a string or another
  value compared by value), pairwise distinct within the page. Then the query
  settles with the option list as it was, followed, in the order of the response, by
  the records whose identifier was not in it; the identifiers of the new list are
  pairwise distinct, every identifier of the page has exactly one entry, and a
  query started from the new list that receives the same page changes nothing.
\<close>

theorem option_cache_append_unique:
  fixes st :: RelatedModelField_state and page :: "jsobject list"
  defines "fresh \<equiv>
     map (\<lambda>obj. \<lparr>option_value = get_prop obj ''pk'', option_data = JSObject obj\<rparr>)
       (filter (\<lambda>obj. get_prop obj ''pk'' \<notin> set (map option_value (data st))) page)"
  assumes started: "captured p = data st"
    and uniq: "distinct (map option_value (data st))"
    and page: "response_results rdata = JSArray (map JSObject page)"
    and ids: "\<forall>obj \<in> set page.
                \<not> nullish (get_prop obj ''pk'') \<and> \<not> fresh_reference (get_prop obj ''pk'')"
    and dist: "distinct (map (\<lambda>obj. get_prop obj ''pk'') page)"
  shows "queryFn_settle p (Response rdata) st
       = (st\<lparr>data := data st @ fresh\<rparr>, Fulfilled (ResponseValue rdata))
     \<and> distinct (map option_value (data st @ fresh))
     \<and> (\<forall>obj \<in> set page.
           length (filter (\<lambda>e. option_value e = get_prop obj ''pk'') (data st @ fresh)) = 1)
     \<and> queryFn_settle (p\<lparr>captured := data st @ fresh\<rparr>) (Response rdata)
          (st\<lparr>data := data st @ fresh\<rparr>)
       = (st\<lparr>data := data st @ fresh\<rparr>, Fulfilled (ResponseValue rdata))"
proof -
  let ?new = "\<lambda>obj. new_option (get_prop obj ''pk'') (JSObject obj)"
  let ?unseen = "\<lambda>seen obj. \<not> array_includes (map option_value seen) (get_prop obj ''pk'')"
  have by_value: "filter (?unseen seen) page
        = filter (\<lambda>obj. get_prop obj ''pk'' \<notin> set (map option_value seen)) page" for seen
    using ids by (intro filter_cong refl) (simp add: array_includes_by_value)
  have fresh: "map ?new (filter (?unseen (data st)) page) = fresh"
    unfolding fresh_def by_value using ids by (auto simp: new_option_identified)
  have first: "queryFn_settle p (Response rdata) st
       = (st\<lparr>data := data st @ fresh\<rparr>, Fulfilled (ResponseValue rdata))"
    using queryFn_settle_objects [OF page, of p st] by (simp add: started fresh)
  have vals: "map option_value (data st @ fresh) =
       map option_value (data st) @
         filter (\<lambda>k. k \<notin> set (map option_value (data st)))
           (map (\<lambda>obj. get_prop obj ''pk'') page)"
    by (simp add: fresh_def filter_map o_def)
  have d: "distinct (map option_value (data st @ fresh))"
    unfolding vals using uniq dist by auto
  have mem: "get_prop obj ''pk'' \<in> option_value ` set (data st @ fresh)"
    if "obj \<in> set page" for obj
  proof -
    have "get_prop obj ''pk'' \<in> set (map option_value (data st @ fresh))"
      unfolding vals using that by auto
    then show ?thesis by auto
  qed
  have one: "\<forall>obj \<in> set page.
       length (filter (\<lambda>e. option_value e = get_prop obj ''pk'') (data st @ fresh)) = 1"
    using one_entry [OF d] mem by blast
  have "filter (?unseen (data st @ fresh)) page = []"
    unfolding by_value using mem by (auto simp: filter_empty_conv)
  then have again: "queryFn_settle (p\<lparr>captured := data st @ fresh\<rparr>) (Response rdata)
          (st\<lparr>data := data st @ fresh\<rparr>)
       = (st\<lparr>data := data st @ fresh\<rparr>, Fulfilled (ResponseValue rdata))"
    using queryFn_settle_objects
            [OF page, of "p\<lparr>captured := data st @ fresh\<rparr>" "st\<lparr>data := data st @ fresh\<rparr>"]
    by simp
  from first d one again show ?thesis by blast
qed

text \<open>
  The amended claim at a field that shows record 1 when a paginated response with
  the records 1 and 2 arrives: record 2 alone is appended, and the same page once
  more changes nothing.
\<close>

theorem option_cache_append_unique_witness:
  "distinct (map option_value
      [\<lparr>option_value = JSNumber (Num 1), option_data = JSObject [(''pk'', JSNumber (Num 1))]\<rparr>])
   \<and> captured \<lparr>sent = GetList ''/api/part/'' [],
             captured = [\<lparr>option_value = JSNumber (Num 1),
                          option_data = JSObject [(''pk'', JSNumber (Num 1))]\<rparr>]\<rparr>
     = data \<lparr>pk = JSNull, offset = 0,
             data = [\<lparr>option_value = JSNumber (Num 1),
                      option_data = JSObject [(''pk'', JSNumber (Num 1))]\<rparr>],
             query_value = [], searchText = []\<rparr>
   \<and> response_results
        (JSObject [(''count'', JSNumber (Num 2)),
                   (''results'', JSArray [JSObject [(''pk'', JSNumber (Num 1))],
                                          JSObject [(''pk'', JSNumber (Num 2))]])])
      = JSArray (map JSObject [[(''pk'', JSNumber (Num 1))], [(''pk'', JSNumber (Num 2))]])
   \<and> \<not> nullish (get_prop [(''pk'', JSNumber (Num 1))] ''pk'')
   \<and> \<not> fresh_reference (get_prop [(''pk'', JSNumber (Num 1))] ''pk'')
   \<and> \<not> nullish (get_prop [(''pk'', JSNumber (Num 2))] ''pk'')
   \<and> \<not> fresh_reference (get_prop [(''pk'', JSNumber (Num 2))] ''pk'')
   \<and> distinct (map (\<lambda>obj. get_prop obj ''pk'')
        [[(''pk'', JSNumber (Num 1))], [(''pk'', JSNumber (Num 2))]])
   \<and> queryFn_settle
        \<lparr>sent = GetList ''/api/part/'' [],
          captured = [\<lparr>option_value = JSNumber (Num 1),
                       option_data = JSObject [(''pk'', JSNumber (Num 1))]\<rparr>]\<rparr>
        (Response
           (JSObject [(''count'', JSNumber (Num 2)),
                      (''results'', JSArray [JSObject [(''pk'', JSNumber (Num 1))],
                                             JSObject [(''pk'', JSNumber (Num 2))]])]))
        \<lparr>pk = JSNull, offset = 0,
          data = [\<lparr>option_value = JSNumber (Num 1),
                   option_data = JSObject [(''pk'', JSNumber (Num 1))]\<rparr>],
          query_value = [], searchText = []\<rparr>
      = (\<lparr>pk = JSNull, offset = 0,
           data = [\<lparr>option_value = JSNumber (Num 1),
                    option_data = JSObject [(''pk'', JSNumber (Num 1))]\<rparr>,
                   \<lparr>option_value = JSNumber (Num 2),
                    option_data = JSObject [(''pk'', JSNumber (Num 2))]\<rparr>],
           query_value = [], searchText = []\<rparr>,
         Fulfilled (ResponseValue
           (JSObject [(''count'', JSNumber (Num 2)),
                      (''results'', JSArray [JSObject [(''pk'', JSNumber (Num 1))],
                                             JSObject [(''pk'', JSNumber (Num 2))]])])))
   \<and> distinct [JSNumber (Num 1), JSNumber (Num 2)]"
proof -
  let ?o1 = "\<lparr>option_value = JSNumber (Num 1), option_data = JSObject [(''pk'', JSNumber (Num 1))]\<rparr>"
  let ?p = "\<lparr>sent = GetList ''/api/part/'' [], captured = [?o1]\<rparr>"
  let ?st = "\<lparr>pk = JSNull, offset = 0, data = [?o1], query_value = [], searchText = []\<rparr>"
  let ?page = "[[(''pk'', JSNumber (Num 1))], [(''pk'', JSNumber (Num 2))]]"
  let ?rdata = "JSObject [(''count'', JSNumber (Num 2)),
                   (''results'', JSArray [JSObject [(''pk'', JSNumber (Num 1))],
                                          JSObject [(''pk'', JSNumber (Num 2))]])]"
  have h0: "captured ?p = data ?st" by simp
  have h1: "distinct (map option_value (data ?st))" by simp
  have h2: "response_results ?rdata = JSArray (map JSObject ?page)"
    by (simp add: response_results_def nullish_coalesce_def nullish_def get_prop_def)
  have h3: "\<forall>obj \<in> set ?page.
              \<not> nullish (get_prop obj ''pk'') \<and> \<not> fresh_reference (get_prop obj ''pk'')"
    by (simp add: nullish_def get_prop_def)
  have h4: "distinct (map (\<lambda>obj. get_prop obj ''pk'') ?page)"
    by (simp add: get_prop_def)
  from option_cache_append_unique [OF h0 h1 h2 h3 h4] h0 h2 h3 h4
  show ?thesis by (simp add: get_prop_def)
qed

text \<open>
  C1 as stated fails: with record 1 cached, a page that repeats record 2 (and holds
  record 1 again) leaves two entries for identifier 2, since the identifiers to skip
  are collected once before the loop.
\<close>

theorem option_cache_duplicate_within_page:
  "queryFn_then
     [\<lparr>option_value = JSNumber (Num 1), option_data = JSObject [(''pk'', JSNumber (Num 1))]\<rparr>]
     (JSArray [JSObject [(''pk'', JSNumber (Num 1))], JSObject [(''pk'', JSNumber (Num 2))],
               JSObject [(''pk'', JSNumber (Num 2))]])
   = Inr [\<lparr>option_value = JSNumber (Num 1), option_data = JSObject [(''pk'', JSNumber (Num 1))]\<rparr>,
          \<lparr>option_value = JSNumber (Num 2), option_data = JSObject [(''pk'', JSNumber (Num 2))]\<rparr>,
          \<lparr>option_value = JSNumber (Num 2), option_data = JSObject [(''pk'', JSNumber (Num 2))]\<rparr>]
   \<and> \<not> distinct (map option_value
        [\<lparr>option_value = JSNumber (Num 1), option_data = JSObject [(''pk'', JSNumber (Num 1))]\<rparr>,
         \<lparr>option_value = JSNumber (Num 2), option_data = JSObject [(''pk'', JSNumber (Num 2))]\<rparr>,
         \<lparr>option_value = JSNumber (Num 2), option_data = JSObject [(''pk'', JSNumber (Num 2))]\<rparr>])"
  by (simp add: queryFn_then_def response_results_array get_prop_def new_option_def
        nullish_coalesce_def nullish_def array_includes_def same_value_zero_def)

subsection \<open>C2: opening the menu\<close>

text \<open>
  C2, as amended. Opening the selection menu sets the search input to the empty string
  and the offset to 0 and runs the list query again, with the request of the render
  in which the menu was opened; the option list, the selection and the debounced
  text are left as they are. When the response to that request holds a page of
  records, in either shape, the records whose identifier \<^verbatim>\<open>includes\<close> does not find
  among the options loaded before are appended to those options.
\<close>

theorem onMenuOpen_resets_query_keeps_options:
  "query_value (fst (onMenuOpen d limit st)) = []
   \<and> offset (fst (onMenuOpen d limit st)) = 0
   \<and> data (fst (onMenuOpen d limit st)) = data st
   \<and> pk (fst (onMenuOpen d limit st)) = pk st
   \<and> searchText (fst (onMenuOpen d limit st)) = searchText st
   \<and> snd (onMenuOpen d limit st) =
       (if nonempty (api_url d)
        then Some \<lparr>sent = GetList (render_text (api_url d)) (query_params d limit st),
                   captured = data st\<rparr>
        else None)
   \<and> (response_results rdata = JSArray (map JSObject page) \<longrightarrow>
        fst (queryFn_settle \<lparr>sent = r, captured = data st\<rparr> (Response rdata)
               (fst (onMenuOpen d limit st)))
        = (fst (onMenuOpen d limit st))
            \<lparr>data := data st @ map (\<lambda>obj. new_option (get_prop obj ''pk'') (JSObject obj))
                       (filter (\<lambda>obj. \<not> array_includes (map option_value (data st))
                                          (get_prop obj ''pk''))
                          page)\<rparr>)"
proof -
  have "fst (queryFn_settle \<lparr>sent = r, captured = data st\<rparr> (Response rdata)
               (fst (onMenuOpen d limit st)))
        = (fst (onMenuOpen d limit st))
            \<lparr>data := data st @ map (\<lambda>obj. new_option (get_prop obj ''pk'') (JSObject obj))
                       (filter (\<lambda>obj. \<not> array_includes (map option_value (data st))
                                          (get_prop obj ''pk''))
                          page)\<rparr>"
    if "response_results rdata = JSArray (map JSObject page)"
    using queryFn_settle_objects
            [OF that, of "\<lparr>sent = r, captured = data st\<rparr>" "fst (onMenuOpen d limit st)"]
    by simp
  then show ?thesis
    by (simp add: onMenuOpen_def queryFn_request)
qed

text \<open>
  The amended claim at a field that shows record 3, loaded for the text \<^verbatim>\<open>res\<close>, when the
  menu is opened and the paginated response to the refetch holds the records 3 and 4.
\<close>

theorem onMenuOpen_resets_query_keeps_options_witness:
  "response_results
      (JSObject [(''count'', JSNumber (Num 2)),
                 (''results'', JSArray [JSObject [(''pk'', JSNumber (Num 3))],
                                        JSObject [(''pk'', JSNumber (Num 4))]])])
     = JSArray (map JSObject [[(''pk'', JSNumber (Num 3))], [(''pk'', JSNumber (Num 4))]])
   \<and> fst (queryFn_settle
        \<lparr>sent = GetList ''/api/part/''
                  [(''search'', JSString ''res''), (''offset'', JSNumber (Num 10)),
                   (''limit'', JSNumber (Num 10))],
          captured = [\<lparr>option_value = JSNumber (Num 3),
                       option_data = JSObject [(''pk'', JSNumber (Num 3))]\<rparr>]\<rparr>
        (Response
           (JSObject [(''count'', JSNumber (Num 2)),
                      (''results'', JSArray [JSObject [(''pk'', JSNumber (Num 3))],
                                             JSObject [(''pk'', JSNumber (Num 4))]])]))
        (fst (onMenuOpen (blank_definition\<lparr>api_url := Some ''/api/part/''\<rparr>) 10
           \<lparr>pk = JSNull, offset = 10,
             data = [\<lparr>option_value = JSNumber (Num 3),
                      option_data = JSObject [(''pk'', JSNumber (Num 3))]\<rparr>],
             query_value = ''res'', searchText = ''res''\<rparr>)))
     = \<lparr>pk = JSNull, offset = 0,
        data = [\<lparr>option_value = JSNumber (Num 3),
                 option_data = JSObject [(''pk'', JSNumber (Num 3))]\<rparr>,
                \<lparr>option_value = JSNumber (Num 4),
                 option_data = JSObject [(''pk'', JSNumber (Num 4))]\<rparr>],
        query_value = [], searchText = ''res''\<rparr>"
proof -
  let ?o3 = "\<lparr>option_value = JSNumber (Num 3), option_data = JSObject [(''pk'', JSNumber (Num 3))]\<rparr>"
  let ?st = "\<lparr>pk = JSNull, offset = 10, data = [?o3], query_value = ''res'', searchText = ''res''\<rparr>"
  let ?page = "[[(''pk'', JSNumber (Num 3))], [(''pk'', JSNumber (Num 4))]]"
  let ?rdata = "JSObject [(''count'', JSNumber (Num 2)),
                 (''results'', JSArray [JSObject [(''pk'', JSNumber (Num 3))],
                                        JSObject [(''pk'', JSNumber (Num 4))]])]"
  let ?d = "blank_definition\<lparr>api_url := Some ''/api/part/''\<rparr>"
  note at_open = onMenuOpen_resets_query_keeps_options
     [where d = ?d and limit = 10 and st = ?st and rdata = ?rdata and page = ?page
        and r = "GetList ''/api/part/''
                  [(''search'', JSString ''res''), (''offset'', JSNumber (Num 10)),
                   (''limit'', JSNumber (Num 10))]"]
  have h: "response_results ?rdata = JSArray (map JSObject ?page)"
    by (simp add: response_results_def nullish_coalesce_def nullish_def get_prop_def)
  have opened: "fst (onMenuOpen ?d 10 ?st)
       = \<lparr>pk = JSNull, offset = 0, data = [?o3], query_value = [], searchText = ''res''\<rparr>"
    by (simp add: onMenuOpen_def)
  have "fst (queryFn_settle
          \<lparr>sent = GetList ''/api/part/''
                    [(''search'', JSString ''res''), (''offset'', JSNumber (Num 10)),
                     (''limit'', JSNumber (Num 10))],
            captured = data ?st\<rparr>
          (Response ?rdata) (fst (onMenuOpen ?d 10 ?st)))
        = (fst (onMenuOpen ?d 10 ?st))
            \<lparr>data := data ?st @ map (\<lambda>obj. new_option (get_prop obj ''pk'') (JSObject obj))
                       (filter (\<lambda>obj. \<not> array_includes (map option_value (data ?st))
                                          (get_prop obj ''pk''))
                          ?page)\<rparr>"
    by (rule at_open [THEN conjunct2, THEN conjunct2, THEN conjunct2, THEN conjunct2,
                      THEN conjunct2, THEN conjunct2, rule_format]) (rule h)
  with h opened show ?thesis
    by (simp add: get_prop_def new_option_def nullish_coalesce_def nullish_def
          array_includes_def same_value_zero_def)
qed

text \<open>
  C2 as stated fails: a field that shows one option loaded for the query \<^verbatim>\<open>res\<close> still
  has that option after the menu is opened.
\<close>

theorem onMenuOpen_options_not_discarded:
  "data (fst (onMenuOpen (blank_definition\<lparr>api_url := Some ''/api/part/''\<rparr>) 10
      \<lparr>pk = JSNull, offset = 10,
        data = [\<lparr>option_value = JSNumber (Num 3),
                 option_data = JSObject [(''pk'', JSNumber (Num 3))]\<rparr>],
        query_value = ''res'', searchText = ''res''\<rparr>))
   = [\<lparr>option_value = JSNumber (Num 3), option_data = JSObject [(''pk'', JSNumber (Num 3))]\<rparr>]"
  by (simp add: onMenuOpen_def)

subsection \<open>C3: coercion of the bound value\<close>




subsection \<open>C4: an unrecognized type tag\<close>

text \<open>
  C4, as amended. A field that is not hidden and whose type tag is none of the
  recognized ones (or is absent) renders, on every render, between its pre- and
  post-content, one red alert titled \<^verbatim>\<open>Error\<close> whose text contains the field's name and
  the invalid type string; the renderer has no failing path, its result is this
  value.
\<close>

theorem invalid_field_type_alert:
  assumes "\<not> flag (hidden d)"
    and "field_type d \<notin> Some ` set recognized_types"
  shows "snd (ApiFormField parseInt parseFloat fieldName d w memo)
       = Some (Stack (preFieldContent d)
                 (Alert ''red'' ''Error'' (invalid_type_message fieldName (field_type d)))
                 (postFieldContent d))
     \<and> sublist fieldName (invalid_type_message fieldName (field_type d))
     \<and> sublist (render_text (field_type d)) (invalid_type_message fieldName (field_type d))"
proof -
  have "sublist fieldName (invalid_type_message fieldName (field_type d))"
    unfolding invalid_type_message_def sublist_def by (metis append.assoc)
  moreover have "sublist (render_text (field_type d)) (invalid_type_message fieldName (field_type d))"
    unfolding invalid_type_message_def sublist_def by (metis append.assoc)
  ultimately show ?thesis
    using assms by (simp add: ApiFormField_def Let_def buildField_invalid)
qed

text \<open>The amended claim at the field \<^verbatim>\<open>quantity\<close> with the type tag \<^verbatim>\<open>bogus\<close>, on mount.\<close>

theorem invalid_field_type_alert_witness:
  "\<not> flag (hidden (blank_definition\<lparr>field_type := Some ''bogus''\<rparr>))
   \<and> field_type (blank_definition\<lparr>field_type := Some ''bogus''\<rparr>) \<notin> Some ` set recognized_types
   \<and> snd (ApiFormField parse_digits parse_digits ''quantity''
            (blank_definition\<lparr>field_type := Some ''bogus''\<rparr>) \<lparr>form = Map.empty, trace = []\<rparr>
            None)
      = Some (Stack None
                (Alert ''red'' ''Error''
                   (''Invalid field type for field '' @ [CHR 0x27] @ ''quantity'' @ [CHR 0x27]
                      @ '': '' @ [CHR 0x27] @ ''bogus'' @ [CHR 0x27]))
                None)
   \<and> sublist ''quantity'' (invalid_type_message ''quantity'' (Some ''bogus''))
   \<and> sublist ''bogus'' (invalid_type_message ''quantity'' (Some ''bogus''))"
proof -
  have h1: "\<not> flag (hidden (blank_definition\<lparr>field_type := Some ''bogus''\<rparr>))"
    by (simp add: blank_definition_def flag_def)
  have h2: "field_type (blank_definition\<lparr>field_type := Some ''bogus''\<rparr>)
              \<notin> Some ` set recognized_types"
    by (simp add: recognized_types_def image_iff)
  from invalid_field_type_alert
         [OF h1 h2, of parse_digits parse_digits "''quantity''"
            "\<lparr>form = Map.empty, trace = []\<rparr>" None]
       h1 h2
  show ?thesis
    by (simp add: blank_definition_def invalid_type_message_def render_text_def)
qed

text \<open>
  C4 as stated fails for a hidden field: with the same type tag \<^verbatim>\<open>bogus\<close> it renders
  nothing, so no error indicator is visible.
\<close>

theorem hidden_invalid_type_renders_nothing:
  "snd (ApiFormField parse_digits parse_digits ''quantity''
          (blank_definition\<lparr>field_type := Some ''bogus'', hidden := Some True\<rparr>)
          \<lparr>form = Map.empty, trace = []\<rparr> None)
   = None"
  by (simp add: ApiFormField_def Let_def flag_def)

subsection \<open>C5: the quick-clear cross of a text input\<close>

text \<open>
  C5 holds for a required field, which never shows the cross, and for the click on the
  cross, which writes the empty string. It fails in between: whether the cross is
  shown depends on \<^verbatim>\<open>definition.value\<close>, not on the bound value the input displays.
  An optional string field whose definition carries no value and whose bound value
  is \<^verbatim>\<open>'foo'\<close> shows no cross; one whose definition carries \<^verbatim>\<open>'foo'\<close> still shows the cross
  on the render after a click on it has set the bound value to the empty string.
\<close>

theorem quick_clear_ignores_bound_value:
  "snd (ApiFormField parse_digits parse_digits ''name''
          (blank_definition\<lparr>field_type := Some ''string''\<rparr>)
          \<lparr>form = [''name'' \<mapsto> JSString ''foo''], trace = []\<rparr> None)
   = Some (Stack None
        (TextInput (reducedDefinition (blank_definition\<lparr>field_type := Some ''string''\<rparr>))
           (Some ''string'') (JSString ''foo'') None)
        None)
   \<and> snd (ApiFormField parse_digits parse_digits ''name''
            (blank_definition\<lparr>field_type := Some ''string'', value' := JSString ''foo''\<rparr>)
            (IconX_onClick ''name''
               (blank_definition\<lparr>field_type := Some ''string'', value' := JSString ''foo''\<rparr>)
               \<lparr>form = [''name'' \<mapsto> JSString ''foo''], trace = []\<rparr>)
            (Some \<lparr>memo_deps = JSString ''foo'', memo_value = Num 0\<rparr>))
     = Some (Stack None
          (TextInput
             (reducedDefinition
                (blank_definition\<lparr>field_type := Some ''string'', value' := JSString ''foo''\<rparr>))
             (Some ''string'') (JSString []) (Some (IconX ''1rem'' ''red'')))
          None)"
  by (simp add: ApiFormField_def buildField_def Let_def field_value_def js_or_def flag_def
        blank_definition_def IconX_onClick_def onChange_def field_onChange_def
        call_onValueChange_def)

subsection \<open>C6: resolving the initial value\<close>

text \<open>
  C6, as amended. When the bound value is not \<^verbatim>\<open>null\<close> and differs from the locally
  tracked selection (as it does on mount, where the selection is \<^verbatim>\<open>null\<close>), the effect
  sends exactly one request, for the record with that identifier, and leaves the
  state as it is. When the request succeeds with a record whose identifier is truthy
  (not 0, not the empty string, not absent), the option list becomes that record
  alone and the selection its identifier. When the bound value is \<^verbatim>\<open>null\<close>, the
  selection is \<^verbatim>\<open>null\<close> afterwards, no request is sent and the option list is unchanged.
\<close>

theorem initial_value_resolution:
  "(fv \<noteq> JSNull \<and> \<not> strict_equal fv (pk st)
      \<longrightarrow> useEffect_initial d fv st = (st, Some (GetDetail (api_url d) fv)))
   \<and> (fv \<noteq> JSNull
      \<longrightarrow> useEffect_initial d fv initial_state = (initial_state, Some (GetDetail (api_url d) fv)))
   \<and> (truthy (get_prop obj ''pk'')
      \<longrightarrow> initial_then (Response (JSObject obj)) st
           = st\<lparr>data := [\<lparr>option_value = get_prop obj ''pk'', option_data = JSObject obj\<rparr>],
                pk := get_prop obj ''pk''\<rparr>)
   \<and> pk (fst (useEffect_initial d JSNull st)) = JSNull
   \<and> data (fst (useEffect_initial d JSNull st)) = data st
   \<and> snd (useEffect_initial d JSNull st) = None"
  by (auto simp: useEffect_initial_def initial_then_def initial_state_def strict_equal_def)

text \<open>
  The amended claim at a field mounted with the bound value 42: one request for record 42,
  whose response seeds the list; and at a field that has that selection when the
  bound value becomes \<^verbatim>\<open>null\<close>.
\<close>

theorem initial_value_resolution_witness:
  "JSNumber (Num 42) \<noteq> JSNull
   \<and> \<not> strict_equal (JSNumber (Num 42)) (pk initial_state)
   \<and> useEffect_initial (blank_definition\<lparr>api_url := Some ''/api/part/''\<rparr>) (JSNumber (Num 42))
        initial_state
      = (initial_state, Some (GetDetail (Some ''/api/part/'') (JSNumber (Num 42))))
   \<and> truthy (get_prop [(''pk'', JSNumber (Num 42)), (''name'', JSString ''Widget'')] ''pk'')
   \<and> initial_then
        (Response (JSObject [(''pk'', JSNumber (Num 42)), (''name'', JSString ''Widget'')]))
        initial_state
      = \<lparr>pk = JSNumber (Num 42), offset = 0,
         data = [\<lparr>option_value = JSNumber (Num 42),
                  option_data = JSObject [(''pk'', JSNumber (Num 42)),
                                          (''name'', JSString ''Widget'')]\<rparr>],
         query_value = [], searchText = []\<rparr>
   \<and> fst (useEffect_initial (blank_definition\<lparr>api_url := Some ''/api/part/''\<rparr>) JSNull
        \<lparr>pk = JSNumber (Num 42), offset = 0,
          data = [\<lparr>option_value = JSNumber (Num 42),
                   option_data = JSObject [(''pk'', JSNumber (Num 42)),
                                           (''name'', JSString ''Widget'')]\<rparr>],
          query_value = [], searchText = []\<rparr>)
      = \<lparr>pk = JSNull, offset = 0,
         data = [\<lparr>option_value = JSNumber (Num 42),
                  option_data = JSObject [(''pk'', JSNumber (Num 42)),
                                          (''name'', JSString ''Widget'')]\<rparr>],
         query_value = [], searchText = []\<rparr>"
proof -
  note at_mount = initial_value_resolution
     [where fv = "JSNumber (Num 42)" and st = initial_state
        and d = "blank_definition\<lparr>api_url := Some ''/api/part/''\<rparr>"
        and obj = "[(''pk'', JSNumber (Num 42)), (''name'', JSString ''Widget'')]"]
  have h1: "JSNumber (Num 42) \<noteq> JSNull \<and> \<not> strict_equal (JSNumber (Num 42)) (pk initial_state)"
    by (simp add: strict_equal_def initial_state_def)
  have h2: "truthy (get_prop [(''pk'', JSNumber (Num 42)), (''name'', JSString ''Widget'')] ''pk'')"
    by (simp add: get_prop_def)
  have a: "useEffect_initial (blank_definition\<lparr>api_url := Some ''/api/part/''\<rparr>)
             (JSNumber (Num 42)) initial_state
      = (initial_state,
         Some (GetDetail (api_url (blank_definition\<lparr>api_url := Some ''/api/part/''\<rparr>))
                 (JSNumber (Num 42))))"
    by (rule at_mount [THEN conjunct1, rule_format]) (rule h1)
  have b: "initial_then
        (Response (JSObject [(''pk'', JSNumber (Num 42)), (''name'', JSString ''Widget'')]))
        initial_state
      = initial_state
          \<lparr>data := [\<lparr>option_value =
                        get_prop [(''pk'', JSNumber (Num 42)), (''name'', JSString ''Widget'')] ''pk'',
                      option_data =
                        JSObject [(''pk'', JSNumber (Num 42)), (''name'', JSString ''Widget'')]\<rparr>],
            pk := get_prop [(''pk'', JSNumber (Num 42)), (''name'', JSString ''Widget'')] ''pk''\<rparr>"
    by (rule at_mount [THEN conjunct2, THEN conjunct2, THEN conjunct1, rule_format]) (rule h2)
  have c: "fst (useEffect_initial (blank_definition\<lparr>api_url := Some ''/api/part/''\<rparr>) JSNull
        \<lparr>pk = JSNumber (Num 42), offset = 0,
          data = [\<lparr>option_value = JSNumber (Num 42),
                   option_data = JSObject [(''pk'', JSNumber (Num 42)),
                                           (''name'', JSString ''Widget'')]\<rparr>],
          query_value = [], searchText = []\<rparr>)
      = \<lparr>pk = JSNull, offset = 0,
         data = [\<lparr>option_value = JSNumber (Num 42),
                  option_data = JSObject [(''pk'', JSNumber (Num 42)),
                                          (''name'', JSString ''Widget'')]\<rparr>],
         query_value = [], searchText = []\<rparr>"
    by (simp add: useEffect_initial_def strict_equal_def)
  from h1 h2 a b c show ?thesis
    by (simp add: initial_state_def get_prop_def)
qed

text \<open>
  C6 as stated fails for the bound value 0: the request for record 0 is sent, and its
  successful response, the record with identifier 0, seeds no option and sets no
  selection.
\<close>

theorem initial_value_zero_not_seeded:
  "useEffect_initial (blank_definition\<lparr>api_url := Some ''/api/part/''\<rparr>) (JSNumber (Num 0))
     initial_state
   = (initial_state, Some (GetDetail (Some ''/api/part/'') (JSNumber (Num 0))))
   \<and> initial_then
       (Response (JSObject [(''pk'', JSNumber (Num 0)), (''name'', JSString ''Widget'')]))
       initial_state
     = initial_state
   \<and> data initial_state = []
   \<and> pk initial_state = JSNull"
  by (simp add: useEffect_initial_def initial_then_def initial_state_def strict_equal_def
        get_prop_def blank_definition_def)

subsection \<open>C7: the attributes passed on to the widgets\<close>

text \<open>
  C7. The attributes of the definition that a widget of the generic renderer
  receives by spread syntax, and those that the wrapper of the related-entity field
  receives, are the definition with exactly the value-change callback, the
  filter-adjustment callback, the read-only flag and the nested child definitions
  removed (set to \<^verbatim>\<open>undefined\<close>, or, for the nested child definitions of the related
  field, replaced by the select that is the wrapper's child): none of the four is in
  them, and putting the four back gives the definition, so every other attribute is
  unchanged.
\<close>

theorem stripped_attributes:
  "(spread_attributes (buildField num fieldName d v) = None
      \<or> spread_attributes (buildField num fieldName d v) = Some (reducedDefinition d))
   \<and> wrapper_attributes (RelatedModelField d st) = reducedDefinition d
   \<and> onValueChange (reducedDefinition d) = None
   \<and> adjustFilters (reducedDefinition d) = None
   \<and> read_only (reducedDefinition d) = None
   \<and> children (reducedDefinition d) = None
   \<and> (reducedDefinition d)\<lparr>onValueChange := onValueChange d, adjustFilters := adjustFilters d,
         read_only := read_only d, children := children d\<rparr> = d"
proof -
  have "spread_attributes (buildField num fieldName d v) = None
      \<or> spread_attributes (buildField num fieldName d v) = Some (reducedDefinition d)"
    by (simp add: buildField_def Let_def)
  then show ?thesis
    by (simp add: reducedDefinition_def fieldDefinition_def RelatedModelField_def)
qed

subsection \<open>C8: the change handler\<close>

text \<open>
  C8. In the generic renderer \<^verbatim>\<open>onChange(v)\<close> first writes the new value \<open>v\<close> into the
  form under the field's name and then, if the definition has a value-change
  callback, calls it with \<open>v\<close>; nothing else is done. The related-entity field does
  the same with its new value, the identifier of what the select hands over
  (\<^verbatim>\<open>v.value\<close>, or \<^verbatim>\<open>null\<close> when that is \<^verbatim>\<open>null\<close> or has no identifier): it writes the
  identifier, then calls the callback with it, and sets the local selection to it
  as well.
\<close>

theorem onChange_write_then_callback:
  "onChange fieldName d v w =
     w\<lparr>form := (form w)(fieldName \<mapsto> v),
       trace := trace w @ FormWrite fieldName v #
         (case onValueChange d of None \<Rightarrow> [] | Some cb \<Rightarrow> [ValueChangeCallback cb v])\<rparr>
   \<and> RelatedModelField_onChange fieldName d v (st, w) =
       (st\<lparr>pk := nullish_coalesce (optional_prop v ''value'') JSNull\<rparr>,
        onChange fieldName d (nullish_coalesce (optional_prop v ''value'') JSNull) w)
   \<and> optional_prop (option_object opt) ''value'' = option_value opt
   \<and> nullish_coalesce (optional_prop JSNull ''value'') JSNull = JSNull"
  by (simp add: onChange_def RelatedModelField_onChange_def call_onValueChange_def
        field_onChange_def Let_def option_object_def get_prop_def nullish_coalesce_def
        nullish_def split: option.splits)

subsection \<open>C9: a failed list query\<close>

text \<open>
  C9. When the request of the list query fails, the promise of the query is fulfilled
  with the error, not rejected, and the option list becomes empty while the rest of
  the state is kept. After that a scroll to the bottom (with a page size other than
  0) and a change of the search text each change the key of the query, and for an
  enabled query the query function then sends a request again, starting from the
  empty list.
\<close>

theorem list_failure_clears_options:
  "queryFn_settle p (Failure e) st = (st\<lparr>data := []\<rparr>, Fulfilled (ErrorValue e))
   \<and> (limit \<noteq> 0
      \<longrightarrow> queryKey fieldName fieldId (onMenuScrollToBottom limit (st\<lparr>data := []\<rparr>))
           \<noteq> queryKey fieldName fieldId (st\<lparr>data := []\<rparr>))
   \<and> (q \<noteq> searchText st
      \<longrightarrow> queryKey fieldName fieldId (debounce_elapsed (onInputChange q (st\<lparr>data := []\<rparr>)))
           \<noteq> queryKey fieldName fieldId (st\<lparr>data := []\<rparr>))
   \<and> (enabled d
      \<longrightarrow> queryFn d limit (onMenuScrollToBottom limit (st\<lparr>data := []\<rparr>))
           = Some \<lparr>sent = GetList (render_text (api_url d))
                            (query_params d limit (st\<lparr>data := [], offset := offset st + limit\<rparr>)),
                   captured = []\<rparr>
        \<and> queryFn d limit (debounce_elapsed (onInputChange q (st\<lparr>data := []\<rparr>)))
           = Some \<lparr>sent = GetList (render_text (api_url d))
                            (query_params d limit
                               (st\<lparr>data := [], query_value := q, offset := 0, searchText := q\<rparr>)),
                   captured = []\<rparr>)"
  by (simp add: queryFn_settle_def queryKey_def onMenuScrollToBottom_def onInputChange_def
        debounce_elapsed_def queryFn_request query_params_def enabled_def)

text \<open>
  The claim at a field with one option loaded at offset 10 for the text \<^verbatim>\<open>res\<close>, with
  page size 10 and the new text \<^verbatim>\<open>resi\<close>.
\<close>

theorem list_failure_clears_options_witness:
  "(10::int) \<noteq> 0
   \<and> ''resi'' \<noteq> ''res''
   \<and> enabled (blank_definition\<lparr>api_url := Some ''/api/part/''\<rparr>)
   \<and> queryFn_settle \<lparr>sent = GetList ''/api/part/'' [], captured = []\<rparr> (Failure (RequestError ''500''))
        \<lparr>pk = JSNull, offset = 10,
          data = [\<lparr>option_value = JSNumber (Num 3),
                   option_data = JSObject [(''pk'', JSNumber (Num 3))]\<rparr>],
          query_value = ''res'', searchText = ''res''\<rparr>
      = (\<lparr>pk = JSNull, offset = 10, data = [], query_value = ''res'', searchText = ''res''\<rparr>,
         Fulfilled (ErrorValue (RequestError ''500'')))
   \<and> queryKey ''part'' ''r1''
        (onMenuScrollToBottom 10
           \<lparr>pk = JSNull, offset = 10, data = [], query_value = ''res'', searchText = ''res''\<rparr>)
      = (''related-field-part'', ''r1'', 20, ''res'')
   \<and> queryKey ''part'' ''r1''
        (debounce_elapsed (onInputChange ''resi''
           \<lparr>pk = JSNull, offset = 10, data = [], query_value = ''res'', searchText = ''res''\<rparr>))
      = (''related-field-part'', ''r1'', 0, ''resi'')
   \<and> queryFn (blank_definition\<lparr>api_url := Some ''/api/part/''\<rparr>) 10
        (onMenuScrollToBottom 10
           \<lparr>pk = JSNull, offset = 10, data = [], query_value = ''res'', searchText = ''res''\<rparr>)
      = Some \<lparr>sent = GetList ''/api/part/''
                        [(''search'', JSString ''res''), (''offset'', JSNumber (Num 20)),
                         (''limit'', JSNumber (Num 10))],
              captured = []\<rparr>"
proof -
  let ?st = "\<lparr>pk = JSNull, offset = 10,
          data = [\<lparr>option_value = JSNumber (Num 3),
                   option_data = JSObject [(''pk'', JSNumber (Num 3))]\<rparr>],
          query_value = ''res'', searchText = ''res''\<rparr>"
  let ?d = "blank_definition\<lparr>api_url := Some ''/api/part/''\<rparr>"
  note at_failure = list_failure_clears_options
     [where p = "\<lparr>sent = GetList ''/api/part/'' [], captured = []\<rparr>" and e = "RequestError ''500''"
        and st = ?st and limit = 10 and q = "''resi''" and d = ?d
        and fieldName = "''part''" and fieldId = "''r1''"]
  have h1: "(10::int) \<noteq> 0" by simp
  have h2: "''resi'' \<noteq> searchText ?st" by simp
  have h3: "enabled ?d" by (simp add: enabled_def nonempty_def flag_def blank_definition_def)
  have a: "queryFn_settle \<lparr>sent = GetList ''/api/part/'' [], captured = []\<rparr>
             (Failure (RequestError ''500'')) ?st
           = (?st\<lparr>data := []\<rparr>, Fulfilled (ErrorValue (RequestError ''500'')))"
    by (rule at_failure [THEN conjunct1])
  have b: "queryKey ''part'' ''r1'' (onMenuScrollToBottom 10 (?st\<lparr>data := []\<rparr>))
           \<noteq> queryKey ''part'' ''r1'' (?st\<lparr>data := []\<rparr>)"
    by (rule at_failure [THEN conjunct2, THEN conjunct1, rule_format]) (rule h1)
  have c: "queryKey ''part'' ''r1'' (debounce_elapsed (onInputChange ''resi'' (?st\<lparr>data := []\<rparr>)))
           \<noteq> queryKey ''part'' ''r1'' (?st\<lparr>data := []\<rparr>)"
    by (rule at_failure [THEN conjunct2, THEN conjunct2, THEN conjunct1, rule_format]) (rule h2)
  have e: "queryFn ?d 10 (onMenuScrollToBottom 10 (?st\<lparr>data := []\<rparr>))
           = Some \<lparr>sent = GetList (render_text (api_url ?d))
                            (query_params ?d 10 (?st\<lparr>data := [], offset := offset ?st + 10\<rparr>)),
                   captured = []\<rparr>"
    by (rule at_failure [THEN conjunct2, THEN conjunct2, THEN conjunct2, rule_format, THEN conjunct1])
       (rule h3)
  from a b c e h3 show ?thesis
    by (simp add: queryKey_def onMenuScrollToBottom_def onInputChange_def debounce_elapsed_def
          query_params_def render_text_def nullish_coalesce_def nullish_def blank_definition_def)
qed

subsection \<open>C10: a definition without a value\<close>

text \<open>
  C10. When the definition carries no value (\<^verbatim>\<open>definition.value\<close> is \<^verbatim>\<open>undefined\<close>), the
  effect that runs on mount and on a refreshed definition leaves the form as it is:
  it writes nothing, so the bound value, an edit of the user included, stays.
\<close>

theorem useEffect_value_undefined_keeps_form:
  assumes "value' d = JSUndefined"
  shows "useEffect_value fieldName d w = w"
  using assms by (simp add: useEffect_value_def)

text \<open>
  The claim at a string field whose definition has no value and whose bound value
  is the text the user typed.
\<close>

theorem useEffect_value_undefined_keeps_form_witness:
  "value' (blank_definition\<lparr>field_type := Some ''string''\<rparr>) = JSUndefined
   \<and> useEffect_value ''name'' (blank_definition\<lparr>field_type := Some ''string''\<rparr>)
        \<lparr>form = [''name'' \<mapsto> JSString ''typed''], trace = []\<rparr>
      = \<lparr>form = [''name'' \<mapsto> JSString ''typed''], trace = []\<rparr>"
proof -
  have h: "value' (blank_definition\<lparr>field_type := Some ''string''\<rparr>) = JSUndefined"
    by (simp add: blank_definition_def)
  from useEffect_value_undefined_keeps_form
         [OF h, of "''name''" "\<lparr>form = [''name'' \<mapsto> JSString ''typed''], trace = []\<rparr>"] h
  show ?thesis by simp
qed


end
